theory Spec2Isabelle
  imports Complex_Main "HOL-Library.AList"
begin

section \<open>JavaScript values\<close>

text \<open>
  The calculation engine of the treatment calculator (\<^verbatim>\<open>calculator.js\<close>, and the
  \<^verbatim>\<open>StageEngine\<close>, \<^verbatim>\<open>DosingEngine\<close> and \<^verbatim>\<open>InteractionEngine\<close> classes) is
  embedded as HOL functions.

  \<^item> A JavaScript number is a \<^typ>\<open>real\<close>: the arithmetic is exact, and the IEEE-754
    rounding of every operation is left out. A quotient whose denominator is zero is
    \<^verbatim>\<open>Infinity\<close> or \<^verbatim>\<open>NaN\<close> in JavaScript and has no counterpart here; the
    theorems that depend on such a quotient assume the denominator to be non-zero.
  \<^item> A thrown \<^verbatim>\<open>Error(message)\<close> is \<open>Inl (Error message)\<close>; reading a property of
    \<^verbatim>\<open>null\<close> or \<^verbatim>\<open>undefined\<close> is \<open>Inl TypeError\<close>.
  \<^item> An object loaded from the JSON reference data is a map from its keys; an object
    that the engine builds key by key is an association list in insertion order
    (\<open>AList.update\<close> overwrites in place and appends a new key, like an assignment
    to a string-keyed property).
  \<^item> A field is optional (\<open>option\<close>) where the source guards against its absence
    (\<^verbatim>\<open>||\<close>, \<^verbatim>\<open>??\<close>, \<^verbatim>\<open>typeof\<close>, a truthiness test); the other fields are those
    the data model requires.
\<close>

datatype error = Error string | TypeError

text \<open>\<^verbatim>\<open>Math.round\<close>: the nearest integer, a tie going up.\<close>

definition Math_round :: "real \<Rightarrow> real" where
  "Math_round x = of_int \<lfloor>x + 1 / 2\<rfloor>"

text \<open>Truthiness of a number that is present: every number but zero.\<close>

definition truthy :: "real \<Rightarrow> bool" where
  "truthy x \<longleftrightarrow> x \<noteq> 0"

text \<open>Truthiness of an optional number: \<^verbatim>\<open>undefined\<close> and \<open>0\<close> are falsy.\<close>

fun truthy_opt :: "real option \<Rightarrow> bool" where
  "truthy_opt None = False"
| "truthy_opt (Some x) = truthy x"

section \<open>Reference data\<close>

record pharmacokinetics_rec =
  pk_f :: real
  pk_vd :: real
  pk_kp :: real

record safe_range =
  range_min :: real
  range_max :: real

record component =
  dosePerKg :: real
  frequency :: string
  timing :: "string list"
  unit :: string
  route :: string
  pharmacokinetics :: pharmacokinetics_rec
  pharmacodynamics :: "(string \<rightharpoonup> real) option"
  adjustments :: "string \<rightharpoonup> real"
  safeRange :: "safe_range option"

record components_data =
  components :: "string \<rightharpoonup> component"

text \<open>
  The fields that an interaction record and a processed synergy share; \<open>itype\<close> is
  the source's \<^verbatim>\<open>type\<close>.
\<close>

record interaction_core =
  itype :: string
  factor :: real
  mechanism :: string
  significance :: string
  verification :: "string option"

record interaction = interaction_core +
  ci :: "real option"
  rate :: "real option"

record synergy = interaction_core +
  combinationIndex :: "real option"
  ci_interpretation :: "string option"
  regenerationRate :: "real option"
  regenerationFactor :: "real option"

text \<open>
  \<open>synergyCalculation_interpretation\<close> is the label table
  \<^verbatim>\<open>interactionsData.synergyCalculation.interpretation\<close>.
\<close>

record interactions_data =
  drugInteractions :: "string \<rightharpoonup> interaction"
  synergyCalculation_interpretation :: "string \<rightharpoonup> string"

type_synonym synergies = "(string \<times> synergy) list"

section \<open>Interaction engine\<close>

definition interpretCombinationIndex :: "interactions_data \<Rightarrow> real \<Rightarrow> string option" where
  "interpretCombinationIndex ixd c =
     (let interp = synergyCalculation_interpretation ixd in
      if c < 0.1 then interp ''CI < 0.1''
      else if c \<le> 0.3 then interp ''0.1-0.3''
      else if c \<le> 0.7 then interp ''0.3-0.7''
      else if c \<le> 0.85 then interp ''0.7-0.85''
      else if c \<le> 0.90 then interp ''0.85-0.90''
      else if c \<le> 1.10 then interp ''0.90-1.10''
      else if c \<le> 1.20 then interp ''1.10-1.20''
      else if c \<le> 1.45 then interp ''1.20-1.45''
      else if c \<le> 3.3 then interp ''1.45-3.3''
      else interp ''> 3.3'')"

definition calculateRegenerationFactor :: "real \<Rightarrow> real" where
  "calculateRegenerationFactor regenerationRate' =
     (if regenerationRate' > 100000 then 2.5
      else if regenerationRate' > 10000 then 2.0
      else if regenerationRate' > 1000 then 1.5
      else if regenerationRate' > 100 then 1.2
      else 1.1)"

definition processInteraction :: "interactions_data \<Rightarrow> interaction \<Rightarrow> synergy" where
  "processInteraction ixd ix =
     (let processed = \<lparr> itype = itype ix, factor = factor ix, mechanism = mechanism ix,
                         significance = significance ix, verification = verification ix,
                         combinationIndex = None, ci_interpretation = None,
                         regenerationRate = None, regenerationFactor = None \<rparr>;
          processed = (if truthy_opt (ci ix)
                       then processed \<lparr> combinationIndex := ci ix,
                                        ci_interpretation := interpretCombinationIndex ixd (the (ci ix)) \<rparr>
                       else processed);
          processed = (if itype ix = ''regeneration'' \<and> truthy_opt (rate ix)
                       then processed \<lparr> regenerationRate := rate ix,
                                        regenerationFactor := Some (calculateRegenerationFactor (the (rate ix))) \<rparr>
                       else processed)
      in processed)"

text \<open>
  The lookup of a pair, \<^verbatim>\<open>interactions[key1] || interactions[key2]\<close>: the record
  under \<open>comp1_comp2\<close> if there is one, else the record under \<open>comp2_comp1\<close>.
\<close>

definition lookupInteraction :: "interactions_data \<Rightarrow> string \<Rightarrow> string \<Rightarrow> interaction option" where
  "lookupInteraction ixd comp1 comp2 =
     (case drugInteractions ixd (comp1 @ ''_'' @ comp2) of
        Some ix \<Rightarrow> Some ix
      | None \<Rightarrow> drugInteractions ixd (comp2 @ ''_'' @ comp1))"

text \<open>The inner loop of \<^verbatim>\<open>calculateSynergies\<close>, over \<open>j = i + 1, ...\<close>.\<close>

fun synergiesInner :: "interactions_data \<Rightarrow> string \<Rightarrow> string list \<Rightarrow> synergies \<Rightarrow> synergies" where
  "synergiesInner ixd comp1 [] syn = syn"
| "synergiesInner ixd comp1 (comp2 # rest) syn =
     synergiesInner ixd comp1 rest
       (case lookupInteraction ixd comp1 comp2 of
          Some ix \<Rightarrow> AList.update (comp1 @ ''-'' @ comp2) (processInteraction ixd ix) syn
        | None \<Rightarrow> syn)"

text \<open>The outer loop, over \<open>i\<close>.\<close>

fun synergiesOuter :: "interactions_data \<Rightarrow> string list \<Rightarrow> synergies \<Rightarrow> synergies" where
  "synergiesOuter ixd [] syn = syn"
| "synergiesOuter ixd (comp1 # rest) syn = synergiesOuter ixd rest (synergiesInner ixd comp1 rest syn)"

definition calculateSynergies :: "interactions_data \<Rightarrow> string list \<Rightarrow> synergies" where
  "calculateSynergies ixd selectedComponents = synergiesOuter ixd selectedComponents []"

text \<open>
  The loop of \<^verbatim>\<open>calculateOverallSynergyFactor\<close> over \<^verbatim>\<open>Object.values(synergies)\<close>; the
  state is \<open>(overallFactor, highSignificanceCount, moderateSignificanceCount)\<close>.
\<close>

fun overallSynergyLoop :: "synergy list \<Rightarrow> real \<times> nat \<times> nat \<Rightarrow> real \<times> nat \<times> nat" where
  "overallSynergyLoop [] st = st"
| "overallSynergyLoop (s # ss) (overallFactor, highCount, moderateCount) =
     overallSynergyLoop ss
       (if significance s = ''high'' then (overallFactor * min (factor s) 2.0, highCount + 1, moderateCount)
        else if significance s = ''moderate'' then (overallFactor * min (factor s) 1.5, highCount, moderateCount + 1)
        else (overallFactor, highCount, moderateCount))"

definition calculateOverallSynergyFactor :: "synergies \<Rightarrow> real" where
  "calculateOverallSynergyFactor syn =
     (case overallSynergyLoop (map snd syn) (1.0, 0, 0) of
        (overallFactor, highCount, moderateCount) \<Rightarrow>
          (let overallFactor = (if highCount > 1 then overallFactor * 0.9 ^ (highCount - 1) else overallFactor);
               overallFactor = (if moderateCount > 2 then overallFactor * 0.95 ^ (moderateCount - 2) else overallFactor)
           in min overallFactor 3.0))"

section \<open>Patient profile\<close>

text \<open>
  \<open>creatinineClearance\<close> and \<open>curvature\<close> may be absent (the source tests
  \<^verbatim>\<open>typeof ... === 'number'\<close> and truthiness before reading them). An absent
  \<open>liverFunction\<close> behaves like the empty string in every test of the source.
\<close>

record patient_profile =
  weight :: real
  height :: real
  age :: real
  bmi :: real
  smoking :: bool
  creatinineClearance :: "real option"
  liverFunction :: string
  stage :: string
  hasPlaque :: bool
  hasCalcification :: bool
  curvature :: "real option"

section \<open>Dosing engine\<close>

record dose_result =
  baseDose :: real
  adjustmentFactor :: real
  adjustedDose :: real
  effectiveDose :: real
  tissueDose :: real
  dose_frequency :: string
  dose_timing :: "string list"
  dose_unit :: string
  dose_route :: string

definition calculateTissueDistribution :: "real \<Rightarrow> pharmacokinetics_rec \<Rightarrow> patient_profile \<Rightarrow> real" where
  "calculateTissueDistribution effectiveDose' pk p =
     (let volumeOfDistribution = pk_vd pk * weight p;
          plasmaConcentration = effectiveDose' / volumeOfDistribution;
          tissueConcentration = plasmaConcentration * pk_kp pk
      in tissueConcentration)"

text \<open>
  The local variable \<^verbatim>\<open>adjustmentFactor\<close> of \<^verbatim>\<open>calculateComponentDose\<close> after the
  five conditional multiplications. A declared factor takes part when the patient's
  predicate holds and the factor is truthy.
\<close>

definition componentAdjustmentFactor :: "component \<Rightarrow> patient_profile \<Rightarrow> real" where
  "componentAdjustmentFactor c p =
     (let adj = adjustments c;
          af = 1.0;
          af = (if age p \<ge> 65 \<and> truthy_opt (adj ''age65'') then af * the (adj ''age65'') else af);
          af = (if bmi p \<ge> 30 \<and> truthy_opt (adj ''bmi30'') then af * the (adj ''bmi30'') else af);
          af = (if smoking p = True \<and> truthy_opt (adj ''smoking'') then af * the (adj ''smoking'') else af);
          af = (if (case creatinineClearance p of Some cc \<Rightarrow> cc \<le> 50 | None \<Rightarrow> False)
                   \<and> truthy_opt (adj ''crCl30'') then af * the (adj ''crCl30'') else af);
          af = (if liverFunction p = ''childB'' \<and> truthy_opt (adj ''childB'') then af * the (adj ''childB'') else af)
      in af)"

definition calculateComponentDose :: "components_data \<Rightarrow> string \<Rightarrow> patient_profile \<Rightarrow> error + dose_result" where
  "calculateComponentDose cd componentId p =
     (case components cd componentId of
        None \<Rightarrow> Inl (Error (''Component '' @ componentId @ '' not found''))
      | Some c \<Rightarrow>
          (let baseDose' = dosePerKg c * weight p;
               adjustmentFactor' = componentAdjustmentFactor c p;
               adjustedDose' = baseDose' * adjustmentFactor';
               effectiveDose' = adjustedDose' * (pk_f (pharmacokinetics c) / 100);
               tissueDose' = calculateTissueDistribution effectiveDose' (pharmacokinetics c) p
           in Inr \<lparr> baseDose = Math_round baseDose',
                     adjustmentFactor = Math_round (adjustmentFactor' * 100) / 100,
                     adjustedDose = Math_round adjustedDose',
                     effectiveDose = Math_round (effectiveDose' * 100) / 100,
                     tissueDose = Math_round (tissueDose' * 100) / 100,
                     dose_frequency = frequency c,
                     dose_timing = timing c,
                     dose_unit = unit c,
                     dose_route = route c \<rparr>))"




section \<open>Stage engine\<close>

record stage_protocol =
  name :: string
  timeframe :: string
  duration :: string
  durationUnit :: string
  description :: string
  characteristics :: "string list"
  coreComponents :: "string list"
  optionalComponents :: "string list"
  contraindicated :: "string list"
  specialConsiderations :: "string list option"
  successBase :: "real option"
  stage_verification :: "string option"

record stages_data =
  stageProtocols :: "string \<rightharpoonup> stage_protocol"

record stage_recommendation =
  stageName :: string
  rec_timeframe :: string
  rec_duration :: string
  rec_description :: string
  rec_characteristics :: "string list"
  rec_coreComponents :: "string list"
  rec_optionalComponents :: "string list"
  rec_contraindicated :: "string list"
  rec_specialConsiderations :: "string list"
  expectedSuccessRate :: "real option"
  rec_verification :: "string option"

definition getRecommendations :: "stages_data \<Rightarrow> string \<Rightarrow> patient_profile option \<Rightarrow> error + stage_recommendation" where
  "getRecommendations sd stageId patientProfile =
     (case stageProtocols sd stageId of
        None \<Rightarrow> Inl (Error (''Stage '' @ stageId @ '' not found''))
      | Some st \<Rightarrow>
          (let duration' = duration st;
               specialConsiderations' = (case specialConsiderations st of Some l \<Rightarrow> l | None \<Rightarrow> []);
               acute = (stageId = ''acute'' \<and> patientProfile \<noteq> None);
               duration' = (if acute then
                              (if hasCalcification (the patientProfile) then ''18-36''
                               else if hasPlaque (the patientProfile) then ''6-24''
                               else duration')
                            else duration');
               specialConsiderations' =
                 (if acute \<and> (hasPlaque (the patientProfile) \<or> hasCalcification (the patientProfile))
                  then specialConsiderations' @
                       [''Injectable therapy mandatory: biweekly for 6 months, then monthly for 12 months'']
                  else specialConsiderations')
           in Inr \<lparr> stageName = name st,
                     rec_timeframe = timeframe st,
                     rec_duration = duration' @ '' '' @ durationUnit st,
                     rec_description = description st,
                     rec_characteristics = characteristics st,
                     rec_coreComponents = coreComponents st,
                     rec_optionalComponents = optionalComponents st,
                     rec_contraindicated = contraindicated st,
                     rec_specialConsiderations = specialConsiderations',
                     expectedSuccessRate = successBase st,
                     rec_verification = stage_verification st \<rparr>))"

record effectiveness_rec =
  tgfReduction :: real
  collagenReduction :: real
  curvatureReduction :: real
  plaqueReduction :: real
  painRelief :: real
  overallSuccessRate :: real

text \<open>
  The private helpers of \<^verbatim>\<open>calculateStageSpecificEffectiveness\<close> update the object
  \<^verbatim>\<open>adjustedEffectiveness\<close> in place; here they return it beside the multiplier.
\<close>

definition calculateAcuteStageMultiplier ::
  "string list \<Rightarrow> patient_profile option \<Rightarrow> effectiveness_rec \<Rightarrow> real \<times> effectiveness_rec" where
  "calculateAcuteStageMultiplier selectedComponents patientProfile adjustedEffectiveness =
     (let multiplier = 1.0;
          multiplier = (if ''vitamin-c'' \<in> set selectedComponents \<or> ''vitamin-e'' \<in> set selectedComponents
                        then multiplier * 1.25 else multiplier);
          e = adjustedEffectiveness \<lparr> collagenReduction := collagenReduction adjustedEffectiveness * 0.8 \<rparr>;
          e = e \<lparr> plaqueReduction := plaqueReduction e * 0.7 \<rparr>
      in if patientProfile \<noteq> None \<and> (hasPlaque (the patientProfile) \<or> hasCalcification (the patientProfile))
         then (multiplier * 1.3, e \<lparr> plaqueReduction := plaqueReduction e * 1.2 \<rparr>)
         else (multiplier, e))"

definition calculateChronicStageMultiplier :: "string list \<Rightarrow> stage_protocol \<Rightarrow> real" where
  "calculateChronicStageMultiplier selectedComponents st =
     (let coreComponentsPresent = length (filter (\<lambda>comp. comp \<in> set selectedComponents) (coreComponents st));
          coreComponentsTotal = length (coreComponents st)
      in if real coreComponentsPresent \<ge> real coreComponentsTotal * 0.8 then 1.15 else 0.9)"

definition getStageMultiplier ::
  "string \<Rightarrow> string list \<Rightarrow> stage_protocol \<Rightarrow> patient_profile option \<Rightarrow> effectiveness_rec
   \<Rightarrow> real \<times> effectiveness_rec" where
  "getStageMultiplier stageId selectedComponents st patientProfile adjustedEffectiveness =
     (if stageId = ''acute'' then calculateAcuteStageMultiplier selectedComponents patientProfile adjustedEffectiveness
      else if stageId = ''chronic'' then (calculateChronicStageMultiplier selectedComponents st, adjustedEffectiveness)
      else (1.0, adjustedEffectiveness))"

definition applyPatientProfileAdjustments ::
  "patient_profile option \<Rightarrow> string list \<Rightarrow> effectiveness_rec \<Rightarrow> real \<Rightarrow> real \<times> effectiveness_rec" where
  "applyPatientProfileAdjustments patientProfile selectedComponents adjustedEffectiveness stageMultiplier =
     (case patientProfile of
        None \<Rightarrow> (stageMultiplier, adjustedEffectiveness)
      | Some p \<Rightarrow>
          (let (multiplier, e) =
                 (if hasCalcification p \<and> ''pentoxifylline'' \<in> set selectedComponents
                  then (stageMultiplier * 1.2,
                        adjustedEffectiveness \<lparr> plaqueReduction := plaqueReduction adjustedEffectiveness * 1.5,
                                                curvatureReduction := curvatureReduction adjustedEffectiveness * 1.3 \<rparr>)
                  else (stageMultiplier, adjustedEffectiveness))
           in if (case curvature p of Some cv \<Rightarrow> truthy cv \<and> cv > 60 | None \<Rightarrow> False)
              then (multiplier * (if length selectedComponents \<ge> 10 then 1.1 else 0.85),
                    e \<lparr> painRelief := painRelief e * 1.2 \<rparr>)
              else (multiplier, e)))"

text \<open>Every key of the effectiveness object holds a number, so the loop scales and caps all six.\<close>

definition applyMultiplierToEffectiveness :: "effectiveness_rec \<Rightarrow> real \<Rightarrow> effectiveness_rec" where
  "applyMultiplierToEffectiveness adjustedEffectiveness stageMultiplier =
     \<lparr> tgfReduction = min (tgfReduction adjustedEffectiveness * stageMultiplier) 100,
       collagenReduction = min (collagenReduction adjustedEffectiveness * stageMultiplier) 100,
       curvatureReduction = min (curvatureReduction adjustedEffectiveness * stageMultiplier) 100,
       plaqueReduction = min (plaqueReduction adjustedEffectiveness * stageMultiplier) 100,
       painRelief = min (painRelief adjustedEffectiveness * stageMultiplier) 100,
       overallSuccessRate = min (overallSuccessRate adjustedEffectiveness * stageMultiplier) 100 \<rparr>"

definition calculateStageSpecificEffectiveness ::
  "stages_data \<Rightarrow> string \<Rightarrow> string list \<Rightarrow> effectiveness_rec \<Rightarrow> patient_profile option \<Rightarrow> effectiveness_rec" where
  "calculateStageSpecificEffectiveness sd stageId selectedComponents componentEffectiveness patientProfile =
     (case stageProtocols sd stageId of
        None \<Rightarrow> componentEffectiveness
      | Some st \<Rightarrow>
          (let (stageMultiplier, adjustedEffectiveness) =
                 getStageMultiplier stageId selectedComponents st patientProfile componentEffectiveness;
               (stageMultiplier, adjustedEffectiveness) =
                 applyPatientProfileAdjustments patientProfile selectedComponents adjustedEffectiveness stageMultiplier
           in applyMultiplierToEffectiveness adjustedEffectiveness stageMultiplier))"

section \<open>Calculator\<close>

record calculator =
  componentsData :: "components_data option"
  interactionsData :: "interactions_data option"
  stagesData :: "stages_data option"
  initialized :: bool

type_synonym doses = "(string \<times> dose_result) list"

record dosing_result =
  componentDoses :: doses
  synergyEffects :: synergies
  effectiveness :: effectiveness_rec
  stageRecommendations :: stage_recommendation
  warnings :: "string list"

text \<open>
  The first loop of \<^verbatim>\<open>aggregateMetric\<close>, over the selected ids, with the running
  \<^verbatim>\<open>product\<close>. An id without a component record is passed over; reading
  \<^verbatim>\<open>doses[componentId].adjustedDose\<close> for an id without a dose is a \<open>TypeError\<close>.
\<close>

fun aggregateLoop ::
  "components_data \<Rightarrow> doses \<Rightarrow> patient_profile \<Rightarrow> string \<Rightarrow> string list \<Rightarrow> real \<Rightarrow> error + real" where
  "aggregateLoop cd ds p metricKey [] product = Inr product"
| "aggregateLoop cd ds p metricKey (componentId # rest) product =
     (case components cd componentId of
        None \<Rightarrow> aggregateLoop cd ds p metricKey rest product
      | Some c \<Rightarrow>
          (case map_of ds componentId of
             None \<Rightarrow> Inl TypeError
           | Some d \<Rightarrow>
               (let pd = (case pharmacodynamics c of Some m \<Rightarrow> m | None \<Rightarrow> Map.empty);
                    base = (case pd metricKey of Some v \<Rightarrow> v | None \<Rightarrow> 0);
                    weight' = max 0 (min 2 (adjustedDose d / (dosePerKg c * weight p)));
                    contribution = max 0 (min 1 ((base / 100) * weight'))
                in aggregateLoop cd ds p metricKey rest (product * (1 - contribution)))))"

text \<open>
  The second loop of \<^verbatim>\<open>aggregateMetric\<close>, over the synergies, with the state
  \<open>(overallSynergyFactor, high, moderate)\<close>; \<^verbatim>\<open>s.factor || 1\<close> replaces a zero
  factor by one.
\<close>

fun blendLoop :: "synergy list \<Rightarrow> real \<times> nat \<times> nat \<Rightarrow> real \<times> nat \<times> nat" where
  "blendLoop [] st = st"
| "blendLoop (s # ss) (overallSynergyFactor, high, moderate) =
     blendLoop ss
       (if significance s = ''high''
        then (overallSynergyFactor * min (if truthy (factor s) then factor s else 1) 1.6, high + 1, moderate)
        else if significance s = ''moderate''
        then (overallSynergyFactor * min (if truthy (factor s) then factor s else 1) 1.3, high, moderate + 1)
        else (overallSynergyFactor, high, moderate))"

definition aggregateMetric ::
  "components_data \<Rightarrow> string list \<Rightarrow> doses \<Rightarrow> synergies \<Rightarrow> patient_profile \<Rightarrow> string \<Rightarrow> error + real" where
  "aggregateMetric cd componentIds ds syn p metricKey =
     (case aggregateLoop cd ds p metricKey componentIds 1.0 of
        Inl e \<Rightarrow> Inl e
      | Inr product \<Rightarrow>
          (let value = 100 * (1 - product);
               (overallSynergyFactor, high, moderate) = blendLoop (map snd syn) (1.0, 0, 0);
               overallSynergyFactor = (if high > 1 then overallSynergyFactor * 0.9 ^ (min (high - 1) 10)
                                       else overallSynergyFactor);
               overallSynergyFactor = (if moderate > 2 then overallSynergyFactor * 0.95 ^ (min (moderate - 2) 10)
                                       else overallSynergyFactor);
               overallSynergyFactor = max 0.5 (min overallSynergyFactor 1.8);
               value = max 0 value;
               value = value powr 0.9 * (0.85 + 0.15 * max 0 (min ((overallSynergyFactor - 1) / 0.8) 1))
           in Inr (max 0 (min 100 value))))"

text \<open>The loop that multiplies \<^verbatim>\<open>synergyBoost\<close> by each capped factor.\<close>

fun boostLoop :: "synergy list \<Rightarrow> real \<Rightarrow> real" where
  "boostLoop [] synergyBoost = synergyBoost"
| "boostLoop (s # ss) synergyBoost =
     boostLoop ss (synergyBoost * min (if truthy (factor s) then factor s else 1) 1.5)"

text \<open>The \<^verbatim>\<open>penalty\<close> that \<^verbatim>\<open>calculateOverallEffectiveness\<close> accumulates over the profile.\<close>

definition profilePenalty :: "patient_profile \<Rightarrow> real" where
  "profilePenalty p =
     (let penalty = 0;
          penalty = (if age p \<ge> 65 then penalty + 10 else penalty);
          penalty = (if bmi p \<ge> 30 then penalty + 5 else penalty);
          penalty = (if smoking p then penalty + 5 else penalty);
          penalty = (if (case creatinineClearance p of Some cc \<Rightarrow> cc < 30 | None \<Rightarrow> False)
                     then penalty + 10 else penalty);
          penalty = (if liverFunction p \<noteq> [] \<and> liverFunction p \<noteq> ''normal'' then penalty + 10 else penalty)
      in penalty)"

text \<open>
  The response potential, the second half of \<^verbatim>\<open>calculateOverallEffectiveness\<close>;
  \<open>sdo\<close> is \<^verbatim>\<open>this.stagesData\<close>, read through optional chaining.
\<close>

definition responsePotential :: "stages_data option \<Rightarrow> string list \<Rightarrow> synergies \<Rightarrow> patient_profile \<Rightarrow> real" where
  "responsePotential sdo componentIds syn p =
     (let stage' = (case sdo of Some sd \<Rightarrow> stageProtocols sd (stage p) | None \<Rightarrow> None);
          baseSuccess = (case stage' of
                           Some st \<Rightarrow> (case successBase st of Some b \<Rightarrow> b | None \<Rightarrow> 70)
                         | None \<Rightarrow> 70);
          core = (case stage' of Some st \<Rightarrow> coreComponents st | None \<Rightarrow> []);
          covered = length (filter (\<lambda>c. c \<in> set core) componentIds);
          coverageRatio = (if length core \<noteq> 0 then real covered / real (length core) else 0.5);
          synergyBoost = boostLoop (map snd syn) 1.0;
          synergyBoost = min synergyBoost 1.6;
          penalty = profilePenalty p
      in max 0 (min 95 (baseSuccess * coverageRatio * (0.9 + 0.1 * (synergyBoost - 1) / 0.6) - penalty)))"

definition calculateOverallEffectiveness ::
  "components_data \<Rightarrow> stages_data option \<Rightarrow> string list \<Rightarrow> doses \<Rightarrow> synergies \<Rightarrow> patient_profile
   \<Rightarrow> error + effectiveness_rec" where
  "calculateOverallEffectiveness cd sdo componentIds ds syn p =
     (case aggregateMetric cd componentIds ds syn p ''tgfReduction'' of Inl e \<Rightarrow> Inl e | Inr tgfReduction' \<Rightarrow>
      case aggregateMetric cd componentIds ds syn p ''collagenReduction'' of Inl e \<Rightarrow> Inl e | Inr collagenReduction' \<Rightarrow>
      case aggregateMetric cd componentIds ds syn p ''curvatureReduction'' of Inl e \<Rightarrow> Inl e | Inr curvatureReduction' \<Rightarrow>
      case aggregateMetric cd componentIds ds syn p ''plaqueReduction'' of Inl e \<Rightarrow> Inl e | Inr plaqueReduction' \<Rightarrow>
      case aggregateMetric cd componentIds ds syn p ''painRelief'' of Inl e \<Rightarrow> Inl e | Inr painRelief' \<Rightarrow>
        Inr \<lparr> tgfReduction = tgfReduction',
              collagenReduction = collagenReduction',
              curvatureReduction = curvatureReduction',
              plaqueReduction = plaqueReduction',
              painRelief = painRelief',
              overallSuccessRate = responsePotential sdo componentIds syn p \<rparr>)"

definition generateWarnings :: "patient_profile \<Rightarrow> string list \<Rightarrow> string list" where
  "generateWarnings p componentIds =
     (let severeKidney = (case creatinineClearance p of Some cc \<Rightarrow> cc < 30 | None \<Rightarrow> False) in
        (if age p \<ge> 65 then [''Elderly patient: Consider reduced dosing for some components''] else [])
      @ (if bmi p \<ge> 30 then [''Obesity may require dose adjustments for fat-soluble compounds''] else [])
      @ (if severeKidney then [''Severe kidney impairment: Dose reductions required''] else [])
      @ (if liverFunction p = ''childB'' then [''Liver impairment: Significant dose adjustments needed''] else [])
      @ (if stage p = ''acute'' \<and> hasPlaque p
         then [''Acute phase with established plaque: Full protocol recommended''] else [])
      @ (if ''pentoxifylline'' \<in> set componentIds \<and> severeKidney
         then [''Pentoxifylline: 50% dose reduction required for severe kidney impairment''] else [])
      @ (if ''diclofenac'' \<in> set componentIds \<and> liverFunction p \<noteq> ''normal''
         then [''Diclofenac: Use with caution in liver impairment''] else []))"

text \<open>
  The loop of \<^verbatim>\<open>calculateDosing\<close> that fills \<^verbatim>\<open>componentDoses\<close>: an id without a
  component record is passed over by \<^verbatim>\<open>continue\<close>.
\<close>

fun componentDosesLoop :: "components_data \<Rightarrow> patient_profile \<Rightarrow> string list \<Rightarrow> doses \<Rightarrow> error + doses" where
  "componentDosesLoop cd p [] ds = Inr ds"
| "componentDosesLoop cd p (componentId # rest) ds =
     (case components cd componentId of
        None \<Rightarrow> componentDosesLoop cd p rest ds
      | Some c \<Rightarrow>
          (case calculateComponentDose cd componentId p of
             Inl e \<Rightarrow> Inl e
           | Inr d \<Rightarrow> componentDosesLoop cd p rest (AList.update componentId d ds)))"

text \<open>
  \<^verbatim>\<open>calculateDosing\<close>. The three data fields are \<^verbatim>\<open>null\<close> until \<^verbatim>\<open>loadData\<close> has
  run: the \<^verbatim>\<open>DosingEngine\<close> constructor reads a property of \<^verbatim>\<open>componentsData\<close>, the
  stage engine reads \<^verbatim>\<open>stagesData\<close> in \<^verbatim>\<open>getRecommendations\<close>, and the interaction
  engine reads \<^verbatim>\<open>interactionsData\<close> in \<^verbatim>\<open>calculateSynergies\<close>.
\<close>

definition calculateDosing :: "calculator \<Rightarrow> patient_profile \<Rightarrow> string list \<Rightarrow> error + dosing_result" where
  "calculateDosing this p selectedComponents =
     (if \<not> initialized this then Inl (Error ''Calculator not initialized'')
      else
      case componentsData this of None \<Rightarrow> Inl TypeError | Some cd \<Rightarrow>
      case stagesData this of None \<Rightarrow> Inl TypeError | Some sd \<Rightarrow>
      case getRecommendations sd (stage p) (Some p) of Inl e \<Rightarrow> Inl e | Inr stageRecommendations' \<Rightarrow>
      case componentDosesLoop cd p selectedComponents [] of Inl e \<Rightarrow> Inl e | Inr componentDoses' \<Rightarrow>
      case interactionsData this of None \<Rightarrow> Inl TypeError | Some ixd \<Rightarrow>
        (let synergyEffects' = calculateSynergies ixd selectedComponents in
         case calculateOverallEffectiveness cd (stagesData this) selectedComponents componentDoses' synergyEffects' p of
           Inl e \<Rightarrow> Inl e
         | Inr effectiveness' \<Rightarrow>
             (let effectiveness' =
                    calculateStageSpecificEffectiveness sd (stage p) selectedComponents effectiveness' (Some p)
              in Inr \<lparr> componentDoses = componentDoses',
                        synergyEffects = synergyEffects',
                        effectiveness = effectiveness',
                        stageRecommendations = stageRecommendations',
                        warnings = generateWarnings p selectedComponents \<rparr>)))"


section \<open>Closed forms used in the statements\<close>


text \<open>\<open>clamp lo hi x\<close>: \<open>x\<close> brought into the interval from \<open>lo\<close> to \<open>hi\<close>.\<close>

definition clamp :: "real \<Rightarrow> real \<Rightarrow> real \<Rightarrow> real" where
  "clamp lo hi x = max lo (min hi x)"

text \<open>The selected ids that have a record in the component store, in order, with repetitions.\<close>

definition knownComponents :: "components_data \<Rightarrow> string list \<Rightarrow> component list" where
  "knownComponents cd selectedComponents = List.map_filter (components cd) selectedComponents"

text \<open>
  The adjusted dose that the dose record of a component carries: the product of the
  weight-based dose and the adjustment factor, rounded to the nearest integer.
\<close>

definition roundedAdjustedDose :: "component \<Rightarrow> patient_profile \<Rightarrow> real" where
  "roundedAdjustedDose c p = Math_round (dosePerKg c * weight p * componentAdjustmentFactor c p)"

text \<open>The weight of a component: the ratio of that dose to the nominal weight-based dose, within 0 and 2.\<close>

definition doseWeight :: "component \<Rightarrow> patient_profile \<Rightarrow> real" where
  "doseWeight c p = clamp 0 2 (roundedAdjustedDose c p / (dosePerKg c * weight p))"

text \<open>The pharmacodynamic base of a metric, zero where the component declares none.\<close>

definition pdBase :: "component \<Rightarrow> string \<Rightarrow> real" where
  "pdBase c metricKey =
     (case pharmacodynamics c of
        Some pd \<Rightarrow> (case pd metricKey of Some v \<Rightarrow> v | None \<Rightarrow> 0)
      | None \<Rightarrow> 0)"

definition contribution :: "component \<Rightarrow> patient_profile \<Rightarrow> string \<Rightarrow> real" where
  "contribution c p metricKey = clamp 0 1 ((pdBase c metricKey / 100) * doseWeight c p)"

text \<open>The raw value of a metric: independent-probability aggregation of the contributions.\<close>

definition rawValue :: "components_data \<Rightarrow> patient_profile \<Rightarrow> string list \<Rightarrow> string \<Rightarrow> real" where
  "rawValue cd p selectedComponents metricKey =
     100 * (1 - prod_list (map (\<lambda>c. 1 - contribution c p metricKey) (knownComponents cd selectedComponents)))"

text \<open>The factor of a synergy as the aggregation reads it: one in place of zero.\<close>

definition factorOrOne :: "synergy \<Rightarrow> real" where
  "factorOrOne s = (if factor s = 0 then 1 else factor s)"

text \<open>
  The synergy factor of the blend layer: high-significance factors capped at 1.6,
  moderate ones at 1.3, the exponents of the diminishing returns capped at 10, the
  result within 0.5 and 1.8.
\<close>

definition blendSynergyFactor :: "synergies \<Rightarrow> real" where
  "blendSynergyFactor syn =
     (let hs = filter (\<lambda>s. significance s = ''high'') (map snd syn);
          ms = filter (\<lambda>s. significance s = ''moderate'') (map snd syn)
      in clamp 0.5 1.8
           (prod_list (map (\<lambda>s. min (factorOrOne s) 1.6) hs)
            * prod_list (map (\<lambda>s. min (factorOrOne s) 1.3) ms)
            * (if length hs > 1 then 0.9 ^ min (length hs - 1) 10 else 1)
            * (if length ms > 2 then 0.95 ^ min (length ms - 2) 10 else 1)))"

definition blendedValue :: "real \<Rightarrow> synergies \<Rightarrow> real" where
  "blendedValue raw syn =
     clamp 0 100 (raw powr 0.9 * (0.85 + 0.15 * clamp 0 1 ((blendSynergyFactor syn - 1) / 0.8)))"



text \<open>The parts of the response potential.\<close>

definition baseSuccessOf :: "stage_protocol \<Rightarrow> real" where
  "baseSuccessOf st = (case successBase st of Some b \<Rightarrow> b | None \<Rightarrow> 70)"

definition coverageRatio :: "stage_protocol \<Rightarrow> string list \<Rightarrow> real" where
  "coverageRatio st selectedComponents =
     (if coreComponents st = [] then 0.5
      else real (length (filter (\<lambda>c. c \<in> set (coreComponents st)) selectedComponents))
           / real (length (coreComponents st)))"

definition synergyBoost :: "synergies \<Rightarrow> real" where
  "synergyBoost syn = min (prod_list (map (\<lambda>s. min (factorOrOne s) 1.5) (map snd syn))) 1.6"

definition penaltyOf :: "patient_profile \<Rightarrow> real" where
  "penaltyOf p =
       (if age p \<ge> 65 then 10 else 0)
     + (if bmi p \<ge> 30 then 5 else 0)
     + (if smoking p then 5 else 0)
     + (if (case creatinineClearance p of Some cc \<Rightarrow> cc < 30 | None \<Rightarrow> False) then 10 else 0)
     + (if liverFunction p \<noteq> [] \<and> liverFunction p \<noteq> ''normal'' then 10 else 0)"

text \<open>
  The multiplier that the stage engine applies to every field of the effectiveness
  record: the stage's own factor, then the patient-factor layer.
\<close>

definition overallStageMultiplier :: "string \<Rightarrow> stage_protocol \<Rightarrow> patient_profile \<Rightarrow> string list \<Rightarrow> real" where
  "overallStageMultiplier stageId st p selectedComponents =
       (if stageId = ''acute''
        then (if ''vitamin-c'' \<in> set selectedComponents \<or> ''vitamin-e'' \<in> set selectedComponents then 1.25 else 1)
             * (if hasPlaque p \<or> hasCalcification p then 1.3 else 1)
        else if stageId = ''chronic''
        then (if real (length (filter (\<lambda>comp. comp \<in> set selectedComponents) (coreComponents st)))
                   \<ge> real (length (coreComponents st)) * 0.8 then 1.15 else 0.9)
        else 1)
     * (if hasCalcification p \<and> ''pentoxifylline'' \<in> set selectedComponents then 1.2 else 1)
     * (if (case curvature p of Some cv \<Rightarrow> cv > 60 | None \<Rightarrow> False)
        then (if length selectedComponents \<ge> 10 then 1.1 else 0.85) else 1)"

text \<open>Every field of an effectiveness record is at least zero; every field lies between 0 and 100.\<close>

definition nonnegativeEffectiveness :: "effectiveness_rec \<Rightarrow> bool" where
  "nonnegativeEffectiveness e \<longleftrightarrow>
     0 \<le> tgfReduction e \<and> 0 \<le> collagenReduction e \<and> 0 \<le> curvatureReduction e
     \<and> 0 \<le> plaqueReduction e \<and> 0 \<le> painRelief e \<and> 0 \<le> overallSuccessRate e"


section \<open>Objects that the stage engine updates in place\<close>






section \<open>Example data\<close>

text \<open>Concrete reference data and profiles, on which the theorems below are instantiated.\<close>

definition mkSynergy :: "string \<Rightarrow> real \<Rightarrow> synergy" where
  "mkSynergy sig fac =
     \<lparr> itype = ''synergy'', factor = fac, mechanism = [], significance = sig, verification = None,
       combinationIndex = None, ci_interpretation = None, regenerationRate = None, regenerationFactor = None \<rparr>"

definition exampleSynergies :: synergies where
  "exampleSynergies =
     [(''a-b'', mkSynergy ''high'' 1.3), (''a-c'', mkSynergy ''moderate'' 1.1),
      (''b-c'', mkSynergy ''high'' 1.2), (''a-d'', mkSynergy ''low'' 4),
      (''b-d'', mkSynergy ''moderate'' 1.6), (''c-d'', mkSynergy ''moderate'' 1.1)]"

definition exampleInteractions :: interactions_data where
  "exampleInteractions =
     \<lparr> drugInteractions = map_of
         [(''propolis_pentoxifylline'',
           \<lparr> itype = ''synergy'', factor = 1.4, mechanism = ''Antioxidant and rheologic effect'',
             significance = ''high'', verification = None, ci = Some 0.7, rate = None \<rparr>)],
       synergyCalculation_interpretation = map_of
         [(''CI < 0.1'', ''Very strong synergism''), (''0.1-0.3'', ''Strong synergism''),
          (''0.3-0.7'', ''Synergism''), (''0.7-0.85'', ''Moderate synergism''),
          (''0.85-0.90'', ''Slight synergism''), (''0.90-1.10'', ''Nearly additive''),
          (''1.10-1.20'', ''Slight antagonism''), (''1.20-1.45'', ''Moderate antagonism''),
          (''1.45-3.3'', ''Antagonism''), (''> 3.3'', ''Strong antagonism'')] \<rparr>"

definition pentoxifylline :: component where
  "pentoxifylline =
     \<lparr> dosePerKg = 10, frequency = ''BID'', timing = [''morning'', ''evening''], unit = ''mg'', route = ''oral'',
       pharmacokinetics = \<lparr> pk_f = 20, pk_vd = 4, pk_kp = 2 \<rparr>,
       pharmacodynamics = Some (map_of [(''tgfReduction'', 60), (''collagenReduction'', 50),
                                        (''curvatureReduction'', 40), (''plaqueReduction'', 30),
                                        (''painRelief'', 20), (''successRate'', 70)]),
       adjustments = map_of [(''age65'', 1.1), (''bmi30'', 1.2), (''smoking'', 1.15), (''crCl30'', 0.8)],
       safeRange = None \<rparr>"

text \<open>A component whose low dose per kilogram makes the rounding of the dose visible.\<close>

definition propolis :: component where
  "propolis =
     \<lparr> dosePerKg = 0.1, frequency = ''QD'', timing = [''morning''], unit = ''mg'', route = ''oral'',
       pharmacokinetics = \<lparr> pk_f = 50, pk_vd = 1, pk_kp = 1 \<rparr>,
       pharmacodynamics = Some (map_of [(''tgfReduction'', 50), (''painRelief'', 100)]),
       adjustments = map_of [(''age65'', 0)],
       safeRange = Some \<lparr> range_min = 5, range_max = 10 \<rparr> \<rparr>"

definition exampleComponents :: components_data where
  "exampleComponents = \<lparr> components = map_of [(''pentoxifylline'', pentoxifylline), (''propolis'', propolis)] \<rparr>"

text \<open>
  The profile of the specification's dosing example: weight 80, age 70, BMI 31, smoker,
  creatinine clearance 40, Child-Pugh B.
\<close>

definition exampleProfile :: patient_profile where
  "exampleProfile =
     \<lparr> weight = 80, height = 160, age = 70, bmi = 31, smoking = True, creatinineClearance = Some 40,
       liverFunction = ''childB'', stage = ''acute'', hasPlaque = True, hasCalcification = True,
       curvature = None \<rparr>"


definition acuteStage :: stage_protocol where
  "acuteStage =
     \<lparr> name = ''Acute phase'', timeframe = ''0-12 months'', duration = ''3-18'', durationUnit = ''months'',
       description = ''Active inflammation'', characteristics = [''pain''],
       coreComponents = [''pentoxifylline'', ''propolis''], optionalComponents = [], contraindicated = [],
       specialConsiderations = Some [''Start within 12 months of onset''], successBase = Some 80,
       stage_verification = None \<rparr>"

definition chronicStage :: stage_protocol where
  "chronicStage =
     \<lparr> name = ''Chronic phase'', timeframe = ''over 12 months'', duration = ''6-12'', durationUnit = ''months'',
       description = ''Stable plaque'', characteristics = [''curvature''],
       coreComponents = [''pentoxifylline''], optionalComponents = [''propolis''], contraindicated = [],
       specialConsiderations = Some [''Imaging every 6 months''], successBase = Some 100,
       stage_verification = None \<rparr>"

definition exampleStages :: stages_data where
  "exampleStages = \<lparr> stageProtocols = map_of [(''acute'', acuteStage), (''chronic'', chronicStage)] \<rparr>"

definition exampleCalculator :: calculator where
  "exampleCalculator =
     \<lparr> componentsData = Some exampleComponents, interactionsData = Some exampleInteractions,
       stagesData = Some exampleStages, initialized = True \<rparr>"

text \<open>
  The profile of the specification's chronic scenario: weight 75, BMI 24.5, age 45,
  non-smoker, creatinine clearance 90, normal liver function.
\<close>

definition chronicProfile :: patient_profile where
  "chronicProfile =
     \<lparr> weight = 75, height = 175, age = 45, bmi = 24.5, smoking = False, creatinineClearance = Some 90,
       liverFunction = ''normal'', stage = ''chronic'', hasPlaque = False, hasCalcification = False,
       curvature = None \<rparr>"

text \<open>A light patient: the weight-based dose of \<open>propolis\<close> is 4.4 and its dose record carries 4.\<close>

definition lightProfile :: patient_profile where
  "lightProfile =
     \<lparr> weight = 44, height = 150, age = 30, bmi = 19.6, smoking = False, creatinineClearance = Some 90,
       liverFunction = ''normal'', stage = ''chronic'', hasPlaque = False, hasCalcification = False,
       curvature = None \<rparr>"



section \<open>Dosing engine\<close>









section \<open>Stage engine\<close>

text \<open>
  C8, as stated, fails: the returned duration is the range followed by the stage's
  duration unit, \<open>18-36 months\<close> and not \<open>18-36\<close>.
\<close>

theorem getRecommendations_duration_counterexample:
  "stage exampleProfile = ''acute'' \<and> hasCalcification exampleProfile
   \<and> map_sum id rec_duration (getRecommendations exampleStages (stage exampleProfile) (Some exampleProfile))
       = Inr ''18-36 months''
   \<and> ''18-36 months'' \<noteq> ''18-36''"
  by (simp add: getRecommendations_def exampleStages_def exampleProfile_def acuteStage_def)

text \<open>
  C8, amended. For a profile in the acute stage, whose protocol the stage data holds,
  the returned duration is \<open>18-36\<close> with calcification, else \<open>6-24\<close> with plaque, else
  the stage's declared duration, each followed by a space and the stage's duration unit.
\<close>

theorem getRecommendations_acute_duration:
  assumes "stage p = ''acute''" and "stageProtocols sd ''acute'' = Some st"
  shows "\<exists>r. getRecommendations sd (stage p) (Some p) = Inr r
            \<and> rec_duration r =
                (if hasCalcification p then ''18-36'' else if hasPlaque p then ''6-24'' else duration st)
                @ '' '' @ durationUnit st"
  using assms by (simp add: getRecommendations_def Let_def)

theorem getRecommendations_acute_duration_witness:
  "stage exampleProfile = ''acute'' \<and> stageProtocols exampleStages ''acute'' = Some acuteStage
   \<and> (\<exists>r. getRecommendations exampleStages (stage exampleProfile) (Some exampleProfile) = Inr r
          \<and> rec_duration r = ''18-36 months'')
   \<and> (\<exists>r. getRecommendations exampleStages ''acute'' (Some (exampleProfile \<lparr> hasCalcification := False \<rparr>)) = Inr r
          \<and> rec_duration r = ''6-24 months'')
   \<and> (\<exists>r. getRecommendations exampleStages ''acute''
               (Some (exampleProfile \<lparr> hasCalcification := False, hasPlaque := False \<rparr>)) = Inr r
          \<and> rec_duration r = ''3-18 months'')"
proof -
  have h1: "stage exampleProfile = ''acute''" by (simp add: exampleProfile_def)
  have h2: "stageProtocols exampleStages ''acute'' = Some acuteStage" by (simp add: exampleStages_def)
  have h3: "stage (exampleProfile \<lparr> hasCalcification := False \<rparr>) = ''acute''"
    by (simp add: exampleProfile_def)
  have h4: "stage (exampleProfile \<lparr> hasCalcification := False, hasPlaque := False \<rparr>) = ''acute''"
    by (simp add: exampleProfile_def)
  show ?thesis
    using h1 h2 getRecommendations_acute_duration [OF h1 h2]
      getRecommendations_acute_duration [OF h3 h2] getRecommendations_acute_duration [OF h4 h2]
    by (simp add: exampleProfile_def acuteStage_def)
qed

section \<open>Interaction engine: the reporting synergy factor and the Combination Index\<close>

lemma overallSynergyLoop_closed:
  "overallSynergyLoop ss (f0, h, m) =
     (f0 * prod_list (map (\<lambda>s. min (factor s) 2) (filter (\<lambda>s. significance s = ''high'') ss))
         * prod_list (map (\<lambda>s. min (factor s) 1.5) (filter (\<lambda>s. significance s = ''moderate'') ss)),
      h + length (filter (\<lambda>s. significance s = ''high'') ss),
      m + length (filter (\<lambda>s. significance s = ''moderate'') ss))"
  by (induction ss arbitrary: f0 h m) (simp_all add: mult_ac)

text \<open>
  C6. The overall synergy factor of the reporting variant: with \<open>hs\<close> the
  high-significance and \<open>ms\<close> the moderate-significance synergies found, the result is
  the product of \<open>min factor 2.0\<close> over \<open>hs\<close> and of \<open>min factor 1.5\<close> over \<open>ms\<close>,
  times \<open>0.9 ^ (|hs| - 1)\<close> when \<open>|hs| > 1\<close>, times \<open>0.95 ^ (|ms| - 2)\<close> when
  \<open>|ms| > 2\<close>, capped at \<open>3.0\<close> from above.
\<close>

theorem calculateOverallSynergyFactor_closed_form:
  fixes syn :: synergies
  defines "hs \<equiv> filter (\<lambda>s. significance s = ''high'') (map snd syn)"
      and "ms \<equiv> filter (\<lambda>s. significance s = ''moderate'') (map snd syn)"
  shows "calculateOverallSynergyFactor syn =
     min (prod_list (map (\<lambda>s. min (factor s) 2.0) hs)
          * prod_list (map (\<lambda>s. min (factor s) 1.5) ms)
          * (if length hs > 1 then 0.9 ^ (length hs - 1) else 1)
          * (if length ms > 2 then 0.95 ^ (length ms - 2) else 1))
         3.0"
  unfolding calculateOverallSynergyFactor_def hs_def ms_def
  by (simp add: overallSynergyLoop_closed Let_def mult_ac)

theorem calculateOverallSynergyFactor_closed_form_witness:
  "calculateOverallSynergyFactor exampleSynergies = 1.3 * 1.2 * (1.1 * 1.5 * 1.1) * 0.9 * 0.95"
  using calculateOverallSynergyFactor_closed_form [of exampleSynergies]
  by (simp add: exampleSynergies_def mkSynergy_def)

text \<open>
  C7. The bucket of a Combination Index: the lowest bucket is open above
  (\<open>c < 0.1\<close>), every other bucket contains its upper bound and not its lower bound,
  and the last is \<open>c > 3.3\<close>; so \<open>0.7\<close> falls in \<open>0.3-0.7\<close> and \<open>0.70001\<close> in
  \<open>0.7-0.85\<close>. The result is the label that the reference data gives under the
  bucket's key.
\<close>

theorem interpretCombinationIndex_buckets:
  fixes ixd :: interactions_data and c :: real
  defines "label \<equiv> synergyCalculation_interpretation ixd"
  shows "(c < 0.1 \<longrightarrow> interpretCombinationIndex ixd c = label ''CI < 0.1'')
       \<and> (0.1 \<le> c \<and> c \<le> 0.3 \<longrightarrow> interpretCombinationIndex ixd c = label ''0.1-0.3'')
       \<and> (0.3 < c \<and> c \<le> 0.7 \<longrightarrow> interpretCombinationIndex ixd c = label ''0.3-0.7'')
       \<and> (0.7 < c \<and> c \<le> 0.85 \<longrightarrow> interpretCombinationIndex ixd c = label ''0.7-0.85'')
       \<and> (0.85 < c \<and> c \<le> 0.90 \<longrightarrow> interpretCombinationIndex ixd c = label ''0.85-0.90'')
       \<and> (0.90 < c \<and> c \<le> 1.10 \<longrightarrow> interpretCombinationIndex ixd c = label ''0.90-1.10'')
       \<and> (1.10 < c \<and> c \<le> 1.20 \<longrightarrow> interpretCombinationIndex ixd c = label ''1.10-1.20'')
       \<and> (1.20 < c \<and> c \<le> 1.45 \<longrightarrow> interpretCombinationIndex ixd c = label ''1.20-1.45'')
       \<and> (1.45 < c \<and> c \<le> 3.3 \<longrightarrow> interpretCombinationIndex ixd c = label ''1.45-3.3'')
       \<and> (3.3 < c \<longrightarrow> interpretCombinationIndex ixd c = label ''> 3.3'')
       \<and> interpretCombinationIndex ixd 0.7 = label ''0.3-0.7''
       \<and> interpretCombinationIndex ixd 0.70001 = label ''0.7-0.85''"
  unfolding interpretCombinationIndex_def label_def Let_def
  by simp

theorem interpretCombinationIndex_buckets_witness:
  "interpretCombinationIndex exampleInteractions 0.05 = Some ''Very strong synergism''
   \<and> interpretCombinationIndex exampleInteractions 0.1 = Some ''Strong synergism''
   \<and> interpretCombinationIndex exampleInteractions 0.3 = Some ''Strong synergism''
   \<and> interpretCombinationIndex exampleInteractions 0.5 = Some ''Synergism''
   \<and> interpretCombinationIndex exampleInteractions 0.7 = Some ''Synergism''
   \<and> interpretCombinationIndex exampleInteractions 0.70001 = Some ''Moderate synergism''
   \<and> interpretCombinationIndex exampleInteractions 0.88 = Some ''Slight synergism''
   \<and> interpretCombinationIndex exampleInteractions 1 = Some ''Nearly additive''
   \<and> interpretCombinationIndex exampleInteractions 1.15 = Some ''Slight antagonism''
   \<and> interpretCombinationIndex exampleInteractions 1.3 = Some ''Moderate antagonism''
   \<and> interpretCombinationIndex exampleInteractions 2 = Some ''Antagonism''
   \<and> interpretCombinationIndex exampleInteractions 3.3 = Some ''Antagonism''
   \<and> interpretCombinationIndex exampleInteractions 4 = Some ''Strong antagonism''"
  using interpretCombinationIndex_buckets [of "0.05" exampleInteractions]
        interpretCombinationIndex_buckets [of "0.1" exampleInteractions]
        interpretCombinationIndex_buckets [of "0.3" exampleInteractions]
        interpretCombinationIndex_buckets [of "0.5" exampleInteractions]
        interpretCombinationIndex_buckets [of "0.88" exampleInteractions]
        interpretCombinationIndex_buckets [of 1 exampleInteractions]
        interpretCombinationIndex_buckets [of "1.15" exampleInteractions]
        interpretCombinationIndex_buckets [of "1.3" exampleInteractions]
        interpretCombinationIndex_buckets [of 2 exampleInteractions]
        interpretCombinationIndex_buckets [of "3.3" exampleInteractions]
        interpretCombinationIndex_buckets [of 4 exampleInteractions]
  by (simp add: exampleInteractions_def)

section \<open>Calculator: each loop in closed form\<close>

lemma calculateComponentDose_known:
  "components cd componentId = Some c \<Longrightarrow>
     \<exists>d. calculateComponentDose cd componentId p = Inr d \<and> adjustedDose d = roundedAdjustedDose c p"
  by (simp add: calculateComponentDose_def Let_def roundedAdjustedDose_def mult.assoc)

lemma componentDosesLoop_map_of:
  "\<exists>ds'. componentDosesLoop cd p sel ds = Inr ds' \<and>
     (\<forall>componentId. map_of ds' componentId =
        (if componentId \<in> set sel \<and> components cd componentId \<noteq> None
         then (case calculateComponentDose cd componentId p of Inr d \<Rightarrow> Some d | Inl e \<Rightarrow> None)
         else map_of ds componentId))"
proof (induction sel arbitrary: ds)
  case Nil
  then show ?case by simp
next
  case (Cons a sel)
  show ?case
  proof (cases "components cd a")
    case None
    with Cons.IH [of ds] show ?thesis by auto
  next
    case (Some c)
    then obtain d where d: "calculateComponentDose cd a p = Inr d"
      using calculateComponentDose_known by blast
    from Cons.IH [of "AList.update a d ds"] Some d show ?thesis
      by (auto simp: update_conv')
  qed
qed

lemma aggregateLoop_closed:
  assumes "\<forall>componentId \<in> set sel. \<forall>c. components cd componentId = Some c \<longrightarrow>
             (\<exists>d. map_of ds componentId = Some d \<and> adjustedDose d = roundedAdjustedDose c p)"
  shows "aggregateLoop cd ds p metricKey sel product =
           Inr (product * prod_list (map (\<lambda>c. 1 - contribution c p metricKey) (knownComponents cd sel)))"
  using assms
proof (induction sel arbitrary: product)
  case Nil
  then show ?case by (simp add: knownComponents_def map_filter_simps)
next
  case (Cons a sel)
  show ?case
  proof (cases "components cd a")
    case None
    with Cons show ?thesis by (simp add: knownComponents_def map_filter_simps)
  next
    case (Some c)
    with Cons.prems obtain d where d: "map_of ds a = Some d" "adjustedDose d = roundedAdjustedDose c p"
      by auto
    have "aggregateLoop cd ds p metricKey (a # sel) product =
            aggregateLoop cd ds p metricKey sel (product * (1 - contribution c p metricKey))"
      using Some d
      by (simp add: Let_def contribution_def doseWeight_def clamp_def pdBase_def split: option.splits)
    also have "\<dots> = Inr (product * (1 - contribution c p metricKey)
                        * prod_list (map (\<lambda>c. 1 - contribution c p metricKey) (knownComponents cd sel)))"
      using Cons.IH Cons.prems by simp
    finally show ?thesis
      using Some by (simp add: knownComponents_def map_filter_simps mult.assoc)
  qed
qed

lemma blendLoop_closed:
  "blendLoop ss (f0, h, m) =
     (f0 * prod_list (map (\<lambda>s. min (factorOrOne s) 1.6) (filter (\<lambda>s. significance s = ''high'') ss))
         * prod_list (map (\<lambda>s. min (factorOrOne s) 1.3) (filter (\<lambda>s. significance s = ''moderate'') ss)),
      h + length (filter (\<lambda>s. significance s = ''high'') ss),
      m + length (filter (\<lambda>s. significance s = ''moderate'') ss))"
  by (induction ss arbitrary: f0 h m) (simp_all add: mult_ac factorOrOne_def truthy_def)

lemma contribution_range: "0 \<le> contribution c p k \<and> contribution c p k \<le> 1"
  by (simp add: contribution_def clamp_def)

lemma prod_list_unit_interval:
  "(\<forall>x \<in> set xs. 0 \<le> x \<and> x \<le> (1::real)) \<Longrightarrow> 0 \<le> prod_list xs \<and> prod_list xs \<le> 1"
proof (induction xs)
  case Nil
  then show ?case by simp
next
  case (Cons a xs)
  then have "0 \<le> a" "a \<le> 1" "0 \<le> prod_list xs" "prod_list xs \<le> 1" by auto
  then show ?case using mult_le_one by auto
qed

lemma rawValue_range: "0 \<le> rawValue cd p sel k \<and> rawValue cd p sel k \<le> 100"
proof -
  have "0 \<le> prod_list (map (\<lambda>c. 1 - contribution c p k) (knownComponents cd sel))
      \<and> prod_list (map (\<lambda>c. 1 - contribution c p k) (knownComponents cd sel)) \<le> 1"
    by (rule prod_list_unit_interval) (use contribution_range in auto)
  then show ?thesis by (simp add: rawValue_def)
qed



lemma aggregateMetric_closed:
  assumes "\<forall>componentId \<in> set sel. \<forall>c. components cd componentId = Some c \<longrightarrow>
             (\<exists>d. map_of ds componentId = Some d \<and> adjustedDose d = roundedAdjustedDose c p)"
  shows "aggregateMetric cd sel ds syn p metricKey = Inr (blendedValue (rawValue cd p sel metricKey) syn)"
proof -
  define hs where "hs = filter (\<lambda>s. significance s = ''high'') (map snd syn)"
  define ms where "ms = filter (\<lambda>s. significance s = ''moderate'') (map snd syn)"
  define F where "F = prod_list (map (\<lambda>s. min (factorOrOne s) 1.6) hs)
                    * prod_list (map (\<lambda>s. min (factorOrOne s) 1.3) ms)"
  define raw where "raw = rawValue cd p sel metricKey"
  have raw0: "max 0 raw = raw" using rawValue_range [of cd p sel metricKey] by (simp add: raw_def)
  have loop: "blendLoop (map snd syn) (1.0, 0, 0) = (F, length hs, length ms)"
    by (simp add: blendLoop_closed F_def hs_def ms_def)
  have ploop: "aggregateLoop cd ds p metricKey sel 1.0 =
                Inr (prod_list (map (\<lambda>c. 1 - contribution c p metricKey) (knownComponents cd sel)))"
    using aggregateLoop_closed [OF assms, of metricKey 1] by simp
  have rawv: "100 * (1 - prod_list (map (\<lambda>c. 1 - contribution c p metricKey) (knownComponents cd sel))) = raw"
    by (simp add: raw_def rawValue_def)
  define G where "G = F * (if length hs > 1 then 0.9 ^ min (length hs - 1) 10 else 1)
                        * (if length ms > 2 then 0.95 ^ min (length ms - 2) 10 else 1)"
  have G: "(if 2 < length ms
            then (if 1 < length hs then F * 0.9 ^ min (length hs - 1) 10 else F) * 0.95 ^ min (length ms - 2) 10
            else (if 1 < length hs then F * 0.9 ^ min (length hs - 1) 10 else F)) = G"
    by (simp add: G_def)
  have lhs: "aggregateMetric cd sel ds syn p metricKey =
               Inr (max 0 (min 100 (raw powr 0.9 * (0.85 + 0.15 * max 0 (min ((max 0.5 (min G 1.8) - 1) / 0.8) 1)))))"
    unfolding aggregateMetric_def ploop loop
    by (simp only: sum.case Let_def prod.case rawv raw0 G)
  have bsf: "blendSynergyFactor syn = max 0.5 (min G 1.8)"
    unfolding blendSynergyFactor_def Let_def clamp_def G_def F_def hs_def ms_def
    by (simp only: min.commute)
  have rhs: "blendedValue raw syn =
               max 0 (min 100 (raw powr 0.9 * (0.85 + 0.15 * max 0 (min ((max 0.5 (min G 1.8) - 1) / 0.8) 1))))"
    unfolding blendedValue_def clamp_def bsf
    by (simp only: min.commute)
  from lhs rhs show ?thesis by (simp only: raw_def)
qed

lemma boostLoop_closed:
  "boostLoop ss b = b * prod_list (map (\<lambda>s. min (factorOrOne s) 1.5) ss)"
  by (induction ss arbitrary: b) (simp_all add: factorOrOne_def truthy_def mult_ac)

lemma profilePenalty_closed: "profilePenalty p = penaltyOf p"
  unfolding profilePenalty_def penaltyOf_def Let_def
  by simp

lemma clamp_range:
  assumes "lo \<le> hi"
  shows "clamp lo hi x \<in> {lo..hi}"
  using assms by (simp add: clamp_def)

lemma responsePotential_closed:
  assumes "stageProtocols sd (stage p) = Some st"
  shows "responsePotential (Some sd) sel syn p =
           clamp 0 95 (baseSuccessOf st * coverageRatio st sel * (0.9 + 0.1 * (synergyBoost syn - 1) / 0.6)
                       - penaltyOf p)"
proof -
  have b: "boostLoop (map snd syn) 1.0 = prod_list (map (\<lambda>s. min (factorOrOne s) 1.5) (map snd syn))"
    by (simp add: boostLoop_closed)
  have c: "(if length (coreComponents st) \<noteq> 0
            then real (length (filter (\<lambda>c. c \<in> set (coreComponents st)) sel)) / real (length (coreComponents st))
            else 0.5) = coverageRatio st sel"
    by (simp add: coverageRatio_def)
  show ?thesis
    unfolding responsePotential_def Let_def b profilePenalty_closed
    by (simp only: assms option.case c clamp_def baseSuccessOf_def synergyBoost_def)
qed

lemma responsePotential_range:
  "0 \<le> responsePotential sdo sel syn p \<and> responsePotential sdo sel syn p \<le> 95"
proof -
  have gen: "\<And>x::real. 0 \<le> max 0 (min 95 x) \<and> max 0 (min 95 x) \<le> 95" by simp
  show ?thesis unfolding responsePotential_def Let_def by (rule gen)
qed

lemma blendedValue_range: "0 \<le> blendedValue raw syn \<and> blendedValue raw syn \<le> 100"
  using clamp_range [of 0 100] by (simp add: blendedValue_def)

lemma calculateOverallEffectiveness_closed:
  assumes "\<forall>componentId \<in> set sel. \<forall>c. components cd componentId = Some c \<longrightarrow>
             (\<exists>d. map_of ds componentId = Some d \<and> adjustedDose d = roundedAdjustedDose c p)"
  shows "calculateOverallEffectiveness cd sdo sel ds syn p =
           Inr \<lparr> tgfReduction = blendedValue (rawValue cd p sel ''tgfReduction'') syn,
                 collagenReduction = blendedValue (rawValue cd p sel ''collagenReduction'') syn,
                 curvatureReduction = blendedValue (rawValue cd p sel ''curvatureReduction'') syn,
                 plaqueReduction = blendedValue (rawValue cd p sel ''plaqueReduction'') syn,
                 painRelief = blendedValue (rawValue cd p sel ''painRelief'') syn,
                 overallSuccessRate = responsePotential sdo sel syn p \<rparr>"
  unfolding calculateOverallEffectiveness_def aggregateMetric_closed [OF assms]
  by (simp only: sum.case)

lemma componentDosesLoop_doses:
  assumes "componentDosesLoop cd p sel [] = Inr ds"
  shows "\<forall>componentId \<in> set sel. \<forall>c. components cd componentId = Some c \<longrightarrow>
             (\<exists>d. map_of ds componentId = Some d \<and> adjustedDose d = roundedAdjustedDose c p)"
proof (intro ballI allI impI)
  fix componentId c
  assume a: "componentId \<in> set sel" "components cd componentId = Some c"
  from componentDosesLoop_map_of [of cd p sel "[]"] assms
  have m: "map_of ds componentId =
             (case calculateComponentDose cd componentId p of Inr d \<Rightarrow> Some d | Inl e \<Rightarrow> None)"
    using a by auto
  from calculateComponentDose_known [OF a(2), of p] obtain d
    where "calculateComponentDose cd componentId p = Inr d" "adjustedDose d = roundedAdjustedDose c p"
    by blast
  with m show "\<exists>d. map_of ds componentId = Some d \<and> adjustedDose d = roundedAdjustedDose c p"
    by simp
qed

section \<open>Stage engine: the multiplier\<close>

lemma calculateAcuteStageMultiplier_props:
  assumes "calculateAcuteStageMultiplier sel (Some p) e = (m, e')"
  shows "m = (if ''vitamin-c'' \<in> set sel \<or> ''vitamin-e'' \<in> set sel then 1.25 else 1)
             * (if hasPlaque p \<or> hasCalcification p then 1.3 else 1)"
    and "overallSuccessRate e' = overallSuccessRate e"
    and "nonnegativeEffectiveness e \<Longrightarrow> nonnegativeEffectiveness e'"
  using assms
  by (auto simp: calculateAcuteStageMultiplier_def Let_def nonnegativeEffectiveness_def split: if_splits)

lemma getStageMultiplier_props:
  assumes "getStageMultiplier stageId sel st (Some p) e = (m, e')"
  shows "m = (if stageId = ''acute''
              then (if ''vitamin-c'' \<in> set sel \<or> ''vitamin-e'' \<in> set sel then 1.25 else 1)
                   * (if hasPlaque p \<or> hasCalcification p then 1.3 else 1)
              else if stageId = ''chronic''
              then (if real (length (filter (\<lambda>comp. comp \<in> set sel) (coreComponents st)))
                         \<ge> real (length (coreComponents st)) * 0.8 then 1.15 else 0.9)
              else 1)"
    and "overallSuccessRate e' = overallSuccessRate e"
    and "nonnegativeEffectiveness e \<Longrightarrow> nonnegativeEffectiveness e'"
proof -
  consider (acute) "stageId = ''acute''" | (chronic) "stageId = ''chronic''"
    | (other) "stageId \<noteq> ''acute''" "stageId \<noteq> ''chronic''"
    by blast
  then have "m = (if stageId = ''acute''
              then (if ''vitamin-c'' \<in> set sel \<or> ''vitamin-e'' \<in> set sel then 1.25 else 1)
                   * (if hasPlaque p \<or> hasCalcification p then 1.3 else 1)
              else if stageId = ''chronic''
              then (if real (length (filter (\<lambda>comp. comp \<in> set sel) (coreComponents st)))
                         \<ge> real (length (coreComponents st)) * 0.8 then 1.15 else 0.9)
              else 1)
        \<and> overallSuccessRate e' = overallSuccessRate e
        \<and> (nonnegativeEffectiveness e \<longrightarrow> nonnegativeEffectiveness e')"
  proof cases
    case acute
    with assms have a: "calculateAcuteStageMultiplier sel (Some p) e = (m, e')"
      by (simp add: getStageMultiplier_def)
    from calculateAcuteStageMultiplier_props [OF a] acute show ?thesis by simp
  next
    case chronic
    with assms show ?thesis
      by (simp add: getStageMultiplier_def calculateChronicStageMultiplier_def Let_def)
  next
    case other
    with assms show ?thesis by (simp add: getStageMultiplier_def)
  qed
  then show "m = (if stageId = ''acute''
              then (if ''vitamin-c'' \<in> set sel \<or> ''vitamin-e'' \<in> set sel then 1.25 else 1)
                   * (if hasPlaque p \<or> hasCalcification p then 1.3 else 1)
              else if stageId = ''chronic''
              then (if real (length (filter (\<lambda>comp. comp \<in> set sel) (coreComponents st)))
                         \<ge> real (length (coreComponents st)) * 0.8 then 1.15 else 0.9)
              else 1)"
    and "overallSuccessRate e' = overallSuccessRate e"
    and "nonnegativeEffectiveness e \<Longrightarrow> nonnegativeEffectiveness e'"
    by blast+
qed

lemma applyPatientProfileAdjustments_props:
  assumes "applyPatientProfileAdjustments (Some p) sel e m0 = (m, e')"
  shows "m = m0 * (if hasCalcification p \<and> ''pentoxifylline'' \<in> set sel then 1.2 else 1)
                * (if (case curvature p of Some cv \<Rightarrow> cv > 60 | None \<Rightarrow> False)
                   then (if length sel \<ge> 10 then 1.1 else 0.85) else 1)"
    and "overallSuccessRate e' = overallSuccessRate e"
    and "nonnegativeEffectiveness e \<Longrightarrow> nonnegativeEffectiveness e'"
  using assms
  by (auto simp: applyPatientProfileAdjustments_def Let_def nonnegativeEffectiveness_def truthy_def
           split: if_splits option.splits)


lemma calculateStageSpecificEffectiveness_closed:
  assumes "stageProtocols sd stageId = Some st"
  shows "\<exists>e'. calculateStageSpecificEffectiveness sd stageId sel e (Some p) =
                 applyMultiplierToEffectiveness e' (overallStageMultiplier stageId st p sel)
             \<and> overallSuccessRate e' = overallSuccessRate e
             \<and> (nonnegativeEffectiveness e \<longrightarrow> nonnegativeEffectiveness e')"
proof -
  obtain m1 e1 where s1: "getStageMultiplier stageId sel st (Some p) e = (m1, e1)"
    by (cases "getStageMultiplier stageId sel st (Some p) e")
  obtain m2 e2 where s2: "applyPatientProfileAdjustments (Some p) sel e1 m1 = (m2, e2)"
    by (cases "applyPatientProfileAdjustments (Some p) sel e1 m1")
  have m: "m2 = overallStageMultiplier stageId st p sel"
    unfolding applyPatientProfileAdjustments_props(1) [OF s2] getStageMultiplier_props(1) [OF s1]
      overallStageMultiplier_def ..
  have "calculateStageSpecificEffectiveness sd stageId sel e (Some p) = applyMultiplierToEffectiveness e2 m2"
    using assms s1 s2 by (simp add: calculateStageSpecificEffectiveness_def)
  moreover have "overallSuccessRate e2 = overallSuccessRate e"
    using applyPatientProfileAdjustments_props(2) [OF s2] getStageMultiplier_props(2) [OF s1] by simp
  moreover have "nonnegativeEffectiveness e \<longrightarrow> nonnegativeEffectiveness e2"
    using applyPatientProfileAdjustments_props(3) [OF s2] getStageMultiplier_props(3) [OF s1] by blast
  ultimately show ?thesis using m by blast
qed


section \<open>Calculator: the result of \<open>calculateDosing\<close>\<close>

lemma getRecommendations_known:
  "stageProtocols sd stageId = Some st \<Longrightarrow> \<exists>recs. getRecommendations sd stageId pp = Inr recs"
  by (simp add: getRecommendations_def Let_def)

lemma calculateDosing_closed:
  assumes "initialized this" and "componentsData this = Some cd" and "interactionsData this = Some ixd"
      and "stagesData this = Some sd" and "stageProtocols sd (stage p) = Some st"
  shows "\<exists>ds recs e e'.
           calculateDosing this p sel =
             Inr \<lparr> componentDoses = ds, synergyEffects = calculateSynergies ixd sel,
                   effectiveness = applyMultiplierToEffectiveness e' (overallStageMultiplier (stage p) st p sel),
                   stageRecommendations = recs, warnings = generateWarnings p sel \<rparr>
         \<and> componentDosesLoop cd p sel [] = Inr ds
         \<and> getRecommendations sd (stage p) (Some p) = Inr recs
         \<and> calculateOverallEffectiveness cd (Some sd) sel ds (calculateSynergies ixd sel) p = Inr e
         \<and> overallSuccessRate e' = responsePotential (Some sd) sel (calculateSynergies ixd sel) p
         \<and> nonnegativeEffectiveness e'"
proof -
  define syn where "syn = calculateSynergies ixd sel"
  obtain recs where recs: "getRecommendations sd (stage p) (Some p) = Inr recs"
    using getRecommendations_known [OF assms(5)] by blast
  obtain ds where ds: "componentDosesLoop cd p sel [] = Inr ds"
    using componentDosesLoop_map_of [of cd p sel "[]"] by blast
  define e where "e = \<lparr> tgfReduction = blendedValue (rawValue cd p sel ''tgfReduction'') syn,
                 collagenReduction = blendedValue (rawValue cd p sel ''collagenReduction'') syn,
                 curvatureReduction = blendedValue (rawValue cd p sel ''curvatureReduction'') syn,
                 plaqueReduction = blendedValue (rawValue cd p sel ''plaqueReduction'') syn,
                 painRelief = blendedValue (rawValue cd p sel ''painRelief'') syn,
                 overallSuccessRate = responsePotential (Some sd) sel syn p \<rparr>"
  have e: "calculateOverallEffectiveness cd (Some sd) sel ds syn p = Inr e"
    unfolding e_def by (rule calculateOverallEffectiveness_closed [OF componentDosesLoop_doses [OF ds]])
  have nn: "nonnegativeEffectiveness e"
    using blendedValue_range responsePotential_range
    by (simp add: nonnegativeEffectiveness_def e_def)
  obtain e' where e':
      "calculateStageSpecificEffectiveness sd (stage p) sel e (Some p) =
         applyMultiplierToEffectiveness e' (overallStageMultiplier (stage p) st p sel)"
      "overallSuccessRate e' = overallSuccessRate e" "nonnegativeEffectiveness e'"
    using calculateStageSpecificEffectiveness_closed [OF assms(5), of sel e p] nn by blast
  have "calculateDosing this p sel =
             Inr \<lparr> componentDoses = ds, synergyEffects = syn,
                   effectiveness = applyMultiplierToEffectiveness e' (overallStageMultiplier (stage p) st p sel),
                   stageRecommendations = recs, warnings = generateWarnings p sel \<rparr>"
    unfolding calculateDosing_def
    by (simp only: assms(1-4) recs ds e [unfolded syn_def] e'(1) syn_def
          not_True_eq_False if_False option.case sum.case Let_def)
  moreover have "overallSuccessRate e' = responsePotential (Some sd) sel syn p"
    using e'(2) by (simp add: e_def)
  ultimately show ?thesis using ds recs e e'(3) unfolding syn_def by blast
qed

section \<open>Calculator: the claims about \<open>calculateOverallEffectiveness\<close> and \<open>calculateDosing\<close>\<close>

lemma example_calculator_loaded:
  "initialized exampleCalculator" "componentsData exampleCalculator = Some exampleComponents"
  "interactionsData exampleCalculator = Some exampleInteractions"
  "stagesData exampleCalculator = Some exampleStages"
  by (simp_all add: exampleCalculator_def)

lemma example_stages:
  "stageProtocols exampleStages (stage chronicProfile) = Some chronicStage"
  "stageProtocols exampleStages (stage exampleProfile) = Some acuteStage"
  "stageProtocols exampleStages (stage lightProfile) = Some chronicStage"
  by (simp_all add: exampleStages_def chronicProfile_def exampleProfile_def lightProfile_def)










lemma chronic_multiplier:
  "overallStageMultiplier (stage chronicProfile) chronicStage chronicProfile [''pentoxifylline''] = 1.15"
  by (simp add: overallStageMultiplier_def chronicProfile_def chronicStage_def)

lemma chronic_synergies: "calculateSynergies exampleInteractions [''pentoxifylline''] = []"
  by (simp add: calculateSynergies_def)

lemma chronic_responsePotential:
  "responsePotential (Some exampleStages) [''pentoxifylline''] [] chronicProfile = 90"
  unfolding responsePotential_closed [OF example_stages(1)]
  by (simp add: clamp_def baseSuccessOf_def coverageRatio_def synergyBoost_def penaltyOf_def
        chronicStage_def chronicProfile_def)

lemma calculateDosing_overallSuccessRate:
  assumes "initialized this" and "componentsData this = Some cd" and "interactionsData this = Some ixd"
      and "stagesData this = Some sd" and "stageProtocols sd (stage p) = Some st"
  shows "\<exists>r. calculateDosing this p sel = Inr r
            \<and> overallSuccessRate (effectiveness r) =
                min (responsePotential (Some sd) sel (calculateSynergies ixd sel) p
                     * overallStageMultiplier (stage p) st p sel) 100"
proof -
  from calculateDosing_closed [OF assms, of sel] obtain ds recs e e' where
    r: "calculateDosing this p sel =
             Inr \<lparr> componentDoses = ds, synergyEffects = calculateSynergies ixd sel,
                   effectiveness = applyMultiplierToEffectiveness e' (overallStageMultiplier (stage p) st p sel),
                   stageRecommendations = recs, warnings = generateWarnings p sel \<rparr>"
    and o: "overallSuccessRate e' = responsePotential (Some sd) sel (calculateSynergies ixd sel) p"
    by blast
  show ?thesis unfolding r by (simp add: applyMultiplierToEffectiveness_def o)
qed

text \<open>
  C2, as stated, fails. The stage engine multiplies every numeric field of the
  effectiveness record, the response potential included, and caps it at 100: in the
  specification's chronic scenario, with the whole core selected and a success base
  of 100, the response potential is 90, the chronic multiplier is 1.15, and the
  returned rate is 100, above 95. And the synergy term is not clamped from below: one
  synergy of factor 0.5 lowers the response potential to \<open>245 / 3\<close>, where the stated
  formula gives 90.
\<close>

theorem calculateDosing_overallSuccessRate_counterexample:
  "map_sum id (overallSuccessRate \<circ> effectiveness)
       (calculateDosing exampleCalculator chronicProfile [''pentoxifylline'']) = Inr 100
   \<and> clamp 0 95 (baseSuccessOf chronicStage * coverageRatio chronicStage [''pentoxifylline'']
                  * (0.9 + 0.1 * clamp 0 1 ((synergyBoost [] - 1) / 0.6)) - penaltyOf chronicProfile) = 90
   \<and> responsePotential (Some exampleStages) [''pentoxifylline''] [(''a-b'', mkSynergy ''high'' 0.5)] chronicProfile
       = 245 / 3
   \<and> clamp 0 95 (baseSuccessOf chronicStage * coverageRatio chronicStage [''pentoxifylline'']
                  * (0.9 + 0.1 * clamp 0 1 ((synergyBoost [(''a-b'', mkSynergy ''high'' 0.5)] - 1) / 0.6))
                  - penaltyOf chronicProfile) = 90"
proof -
  from calculateDosing_overallSuccessRate [OF example_calculator_loaded example_stages(1), of "[''pentoxifylline'']"]
  have "map_sum id (overallSuccessRate \<circ> effectiveness)
       (calculateDosing exampleCalculator chronicProfile [''pentoxifylline'']) = Inr 100"
    by (auto simp: chronic_multiplier chronic_synergies chronic_responsePotential)
  moreover have "responsePotential (Some exampleStages) [''pentoxifylline''] [(''a-b'', mkSynergy ''high'' 0.5)] chronicProfile
       = 245 / 3"
    unfolding responsePotential_closed [OF example_stages(1)]
    by (simp add: clamp_def baseSuccessOf_def coverageRatio_def synergyBoost_def penaltyOf_def
          factorOrOne_def mkSynergy_def chronicStage_def chronicProfile_def)
  moreover have "clamp 0 95 (baseSuccessOf chronicStage * coverageRatio chronicStage [''pentoxifylline'']
                  * (0.9 + 0.1 * clamp 0 1 ((synergyBoost [] - 1) / 0.6)) - penaltyOf chronicProfile) = 90"
    by (simp add: clamp_def baseSuccessOf_def coverageRatio_def synergyBoost_def penaltyOf_def
          chronicStage_def chronicProfile_def)
  moreover have "clamp 0 95 (baseSuccessOf chronicStage * coverageRatio chronicStage [''pentoxifylline'']
                  * (0.9 + 0.1 * clamp 0 1 ((synergyBoost [(''a-b'', mkSynergy ''high'' 0.5)] - 1) / 0.6))
                  - penaltyOf chronicProfile) = 90"
    by (simp add: clamp_def baseSuccessOf_def coverageRatio_def synergyBoost_def penaltyOf_def
          factorOrOne_def mkSynergy_def chronicStage_def chronicProfile_def)
  ultimately show ?thesis by blast
qed

text \<open>
  C2, amended. With the reference data loaded and the profile's stage in it, the
  returned \<open>overallSuccessRate\<close> is \<open>min (responsePotential * stageMultiplier) 100\<close>,
  where \<open>responsePotential = clamp 0 95 (successBase * coverageRatio *
  (0.9 + 0.1 * (synergyBoost - 1) / 0.6) - penalty)\<close>, the success base being 70 when
  the stage declares none, \<open>coverageRatio\<close> the number of selected ids that are core
  components over the number of core components (0.5 for an empty core list),
  \<open>synergyBoost\<close> the product of \<open>min factor 1.5\<close> over the synergies found, capped at
  1.6, \<open>penalty\<close> as stated, and \<open>stageMultiplier\<close> the multiplier of the stage
  engine. The synergy term is at most 1 and is the stated clamp whenever
  \<open>synergyBoost\<close> is at least 1; the rate never exceeds 100.
\<close>

theorem calculateDosing_overallSuccessRate_formula:
  fixes p :: patient_profile and st :: stage_protocol and sel :: "string list" and ixd :: interactions_data
  assumes "initialized this" and "componentsData this = Some cd" and "interactionsData this = Some ixd"
      and "stagesData this = Some sd" and "stageProtocols sd (stage p) = Some st"
  defines "boost \<equiv> synergyBoost (calculateSynergies ixd sel)"
  shows "\<exists>r. calculateDosing this p sel = Inr r
            \<and> overallSuccessRate (effectiveness r) =
                min (clamp 0 95 (baseSuccessOf st * coverageRatio st sel * (0.9 + 0.1 * (boost - 1) / 0.6)
                                 - penaltyOf p)
                     * overallStageMultiplier (stage p) st p sel) 100
            \<and> overallSuccessRate (effectiveness r) \<le> 100
            \<and> (boost - 1) / 0.6 \<le> 1
            \<and> (1 \<le> boost \<longrightarrow> (boost - 1) / 0.6 = clamp 0 1 ((boost - 1) / 0.6))"
proof -
  have b: "boost \<le> 1.6" by (simp add: boost_def synergyBoost_def)
  then have "(boost - 1) / 0.6 \<le> 1" by simp
  moreover have "1 \<le> boost \<longrightarrow> (boost - 1) / 0.6 = clamp 0 1 ((boost - 1) / 0.6)"
    using b by (simp add: clamp_def)
  moreover from calculateDosing_overallSuccessRate [OF assms(1-5), of sel]
  have "\<exists>r. calculateDosing this p sel = Inr r
            \<and> overallSuccessRate (effectiveness r) =
                min (clamp 0 95 (baseSuccessOf st * coverageRatio st sel * (0.9 + 0.1 * (boost - 1) / 0.6)
                                 - penaltyOf p)
                     * overallStageMultiplier (stage p) st p sel) 100
            \<and> overallSuccessRate (effectiveness r) \<le> 100"
    unfolding responsePotential_closed [OF assms(5)] boost_def by auto
  ultimately show ?thesis by blast
qed

theorem calculateDosing_overallSuccessRate_formula_witness:
  "initialized exampleCalculator \<and> componentsData exampleCalculator = Some exampleComponents
   \<and> interactionsData exampleCalculator = Some exampleInteractions
   \<and> stagesData exampleCalculator = Some exampleStages
   \<and> stageProtocols exampleStages (stage chronicProfile) = Some chronicStage
   \<and> 1 \<le> synergyBoost (calculateSynergies exampleInteractions [''pentoxifylline''])
   \<and> (\<exists>r. calculateDosing exampleCalculator chronicProfile [''pentoxifylline''] = Inr r
          \<and> overallSuccessRate (effectiveness r) = min (clamp 0 95 (100 * 1 * (0.9 + 0.1 * (1 - 1) / 0.6) - 0) * 1.15) 100)"
proof -
  have s: "synergyBoost (calculateSynergies exampleInteractions [''pentoxifylline'']) = 1"
    by (simp add: chronic_synergies synergyBoost_def)
  have v: "baseSuccessOf chronicStage = 100" "coverageRatio chronicStage [''pentoxifylline''] = 1"
    "penaltyOf chronicProfile = 0"
    by (simp_all add: baseSuccessOf_def coverageRatio_def penaltyOf_def chronicStage_def chronicProfile_def)
  show ?thesis
    using calculateDosing_overallSuccessRate_formula
            [OF example_calculator_loaded example_stages(1), of "[''pentoxifylline'']"]
          example_calculator_loaded example_stages(1)
    unfolding s v chronic_multiplier
    by auto
qed







section \<open>Purity\<close>





end
